theory Spec2Isabelle
  imports Main
begin

section \<open>JavaScript values, the storage interface and the options\<close>

text \<open>
  The program is generic in the type of the synchronized value, and at run time it
  asks two questions of a value: whether it is \<^verbatim>\<open>null\<close>
  (\<^verbatim>\<open>newValue !== null\<close>) and whether it is a function
  (\<^verbatim>\<open>typeof newValue === 'function'\<close>). A value is therefore
  \<^verbatim>\<open>null\<close>, a function, or any other datum. Functions are kept as
  handles of a type \<open>'f\<close>; calling one is the parameter \<open>call\<close> of the
  operations below (functions are pure: the result depends on the argument only).
\<close>

datatype ('a, 'f) jsval = JNull | JVal 'a | JFun 'f

text \<open>The two \<^verbatim>\<open>Storage\<close> objects of a browser window.\<close>

datatype storage_area = LocalStorage | SessionStorage

text \<open>
  The fields of a \<^verbatim>\<open>StorageEvent\<close> that the listener reads. Each is
  \<^verbatim>\<open>null\<close> (here \<open>None\<close>) when absent.
\<close>

record storage_event =
  storageArea :: "storage_area option"
  eventKey :: "string option"
  newValue :: "string option"

text \<open>
  \<^verbatim>\<open>SyncStateOptions\<close>. An omitted \<^verbatim>\<open>key\<close> is \<open>None\<close>; an
  omitted \<^verbatim>\<open>storage\<close>, or \<^verbatim>\<open>storage: false\<close>, is \<open>None\<close>.
  The codec is a pair of total functions; \<^verbatim>\<open>deserialize\<close> receives
  \<^verbatim>\<open>string | null\<close> and answers \<^verbatim>\<open>null\<close> as \<open>JNull\<close>.
  \<open>onInit\<close> tells whether the callback was supplied; a call of it is an entry
  of the trace.
\<close>

record ('a, 'f) options =
  defaultValue :: "('a, 'f) jsval"
  key :: "string option"
  storage :: "storage_area option"
  serialize :: "('a, 'f) jsval \<Rightarrow> string"
  deserialize :: "string option \<Rightarrow> ('a, 'f) jsval"
  onInit :: bool

text \<open>The error thrown by the constructor: \<^verbatim>\<open>You must specify a key to use local storage.\<close>\<close>

datatype error = InvalidConfiguration

text \<open>
  The effects on the collaborators, in the order in which they happen:
  a write to a storage, a call of the state updater of a consumer with a raw value,
  and a call of each of the two optional callbacks.
\<close>

datatype ('a, 'f) effect =
    SetItem storage_area string string
  | Updater nat "('a, 'f) jsval"
  | OnInit "('a, 'f) jsval"
  | OnUpdate "('a, 'f) jsval"

text \<open>
  What exists before and outside an instance: the contents of the storages and the
  trace of effects.
\<close>

record ('a, 'f) world =
  items :: "storage_area \<Rightarrow> string \<Rightarrow> string option"
  trace :: "('a, 'f) effect list"

text \<open>
  An instance: the closure variables \<^verbatim>\<open>value\<close> and \<^verbatim>\<open>updaters\<close>,
  whether \<^verbatim>\<open>storageEventListener\<close> is currently registered on the window,
  and per consumer (a hook call site, named by a number) the React state of the hook
  and the content of its \<^verbatim>\<open>mapperRef\<close>. A state updater is named by its
  consumer.
\<close>

record ('a, 'f) sync_state = "('a, 'f) world" +
  valueCell :: "('a, 'f) jsval"
  updaters :: "nat list"
  listening :: bool
  hookState :: "nat \<Rightarrow> ('a, 'f) jsval option"
  mapperRef :: "nat \<Rightarrow> 'f option"

section \<open>The operations of \<^verbatim>\<open>createSyncState\<close>\<close>

text \<open>Truthiness of an optional string: \<^verbatim>\<open>undefined\<close>, \<^verbatim>\<open>null\<close> and the empty string are falsy.\<close>

definition truthy :: "string option \<Rightarrow> bool" where
  "truthy s = (case s of None \<Rightarrow> False | Some t \<Rightarrow> t \<noteq> [])"

text \<open>The test \<^verbatim>\<open>storage && key\<close>.\<close>

definition storage_and_key :: "('a, 'f) options \<Rightarrow> bool" where
  "storage_and_key opts = (storage opts \<noteq> None \<and> truthy (key opts))"

text \<open>
  \<^verbatim>\<open>updater(newValue)\<close> for the state updater of consumer \<open>c\<close>:
  \<^verbatim>\<open>setState(() => mapperRef.current ? mapperRef.current(newValue) : newValue)\<close>.
\<close>

definition stateUpdater ::
  "('f \<Rightarrow> ('a, 'f) jsval \<Rightarrow> ('a, 'f) jsval) \<Rightarrow> nat \<Rightarrow> ('a, 'f) jsval \<Rightarrow>
   ('a, 'f) sync_state \<Rightarrow> ('a, 'f) sync_state" where
  "stateUpdater call c v st =
     st\<lparr>hookState := (hookState st)(c \<mapsto> (case mapperRef st c of Some m \<Rightarrow> call m v | None \<Rightarrow> v)),
        trace := trace st @ [Updater c v]\<rparr>"

text \<open>\<^verbatim>\<open>updaters.forEach((updater) => updater(newValue))\<close>.\<close>

definition callUpdaters ::
  "('f \<Rightarrow> ('a, 'f) jsval \<Rightarrow> ('a, 'f) jsval) \<Rightarrow> ('a, 'f) jsval \<Rightarrow>
   ('a, 'f) sync_state \<Rightarrow> ('a, 'f) sync_state" where
  "callUpdaters call v st = fold (\<lambda>c. stateUpdater call c v) (updaters st) st"

text \<open>\<^verbatim>\<open>if (storage && key) { storage.setItem(key, serialize(newValue)); }\<close>\<close>

definition persistToStorage ::
  "('a, 'f) options \<Rightarrow> ('a, 'f) jsval \<Rightarrow> ('a, 'f, 'z) world_scheme \<Rightarrow> ('a, 'f, 'z) world_scheme" where
  "persistToStorage opts v w =
     (case (storage opts, key opts) of
        (Some a, Some k) \<Rightarrow>
          if k \<noteq> [] then
            w\<lparr>items := (items w)(a := (items w a)(k \<mapsto> serialize opts v)),
              trace := trace w @ [SetItem a k (serialize opts v)]\<rparr>
          else w
      | _ \<Rightarrow> w)"

text \<open>
  \<^verbatim>\<open>getInitialValue\<close>: with a storage and a key, what the storage answers for
  the key is deserialized, and a result other than \<^verbatim>\<open>null\<close> is the initial
  value; in every other case the default is persisted and is the initial value.
\<close>

definition getInitialValue ::
  "('a, 'f) options \<Rightarrow> ('a, 'f) world \<Rightarrow> ('a, 'f) jsval \<times> ('a, 'f) world" where
  "getInitialValue opts w =
     (case (storage opts, key opts) of
        (Some a, Some k) \<Rightarrow>
          if k \<noteq> [] \<and> deserialize opts (items w a k) \<noteq> JNull
          then (deserialize opts (items w a k), w)
          else (defaultValue opts, persistToStorage opts (defaultValue opts) w)
      | _ \<Rightarrow> (defaultValue opts, persistToStorage opts (defaultValue opts) w))"

text \<open>
  The constructor, as the JavaScript build of the package has it: the guard, the
  initial value, the call of \<^verbatim>\<open>onInit\<close>, and the fresh instance with no
  updater and no consumer.
\<close>

definition createSyncState ::
  "('a, 'f) options \<Rightarrow> ('a, 'f) world \<Rightarrow> error + ('a, 'f) sync_state" where
  "createSyncState opts w =
     (if storage opts \<noteq> None \<and> \<not> truthy (key opts) then Inl InvalidConfiguration
      else
        let (v, w1) = getInitialValue opts w;
            w2 = (if onInit opts then w1\<lparr>trace := trace w1 @ [OnInit v]\<rparr> else w1)
        in Inr \<lparr>items = items w2, trace = trace w2, valueCell = v, updaters = [],
                 listening = False, hookState = (\<lambda>c. None), mapperRef = (\<lambda>c. None)\<rparr>)"

text \<open>
  The constructor of the TypeScript source, which has neither \<^verbatim>\<open>getInitialValue\<close>
  nor \<^verbatim>\<open>onInit\<close>: it persists the default and starts from it.
\<close>

definition createSyncState_ts ::
  "('a, 'f) options \<Rightarrow> ('a, 'f) world \<Rightarrow> error + ('a, 'f) sync_state" where
  "createSyncState_ts opts w =
     (if storage opts \<noteq> None \<and> \<not> truthy (key opts) then Inl InvalidConfiguration
      else
        let w1 = persistToStorage opts (defaultValue opts) w
        in Inr \<lparr>items = items w1, trace = trace w1, valueCell = defaultValue opts, updaters = [],
                 listening = False, hookState = (\<lambda>c. None), mapperRef = (\<lambda>c. None)\<rparr>)"

text \<open>
  Strict equality \<^verbatim>\<open>===\<close> of a field of the event (\<^verbatim>\<open>null\<close> when absent)
  with an option (\<^verbatim>\<open>undefined\<close> or \<^verbatim>\<open>false\<close> when absent): two absent
  values are never equal.
\<close>

definition strict_equal :: "'x option \<Rightarrow> 'x option \<Rightarrow> bool" where
  "strict_equal x y = (case (x, y) of (Some u, Some v) \<Rightarrow> u = v | _ \<Rightarrow> False)"

text \<open>\<^verbatim>\<open>storageEventListener\<close>: match by storage and key, deserialize, update and notify.\<close>

definition storageEventListener ::
  "('f \<Rightarrow> ('a, 'f) jsval \<Rightarrow> ('a, 'f) jsval) \<Rightarrow> ('a, 'f) options \<Rightarrow> storage_event \<Rightarrow>
   ('a, 'f) sync_state \<Rightarrow> ('a, 'f) sync_state" where
  "storageEventListener call opts ev st =
     (if strict_equal (storageArea ev) (storage opts) \<and> strict_equal (eventKey ev) (key opts) then
        let nv = deserialize opts (newValue ev) in
        if nv \<noteq> JNull then callUpdaters call nv (st\<lparr>valueCell := nv\<rparr>) else st
      else st)"

text \<open>
  \<^verbatim>\<open>setSyncValue\<close>: a function is called with the current value, anything else
  is the new value; then the updaters are called and the value is persisted.
\<close>

definition setSyncValue ::
  "('f \<Rightarrow> ('a, 'f) jsval \<Rightarrow> ('a, 'f) jsval) \<Rightarrow> ('a, 'f) options \<Rightarrow> ('a, 'f) jsval \<Rightarrow>
   ('a, 'f) sync_state \<Rightarrow> ('a, 'f) sync_state" where
  "setSyncValue call opts nv st =
     (let v = (case nv of JFun f \<Rightarrow> call f (valueCell st) | _ \<Rightarrow> nv)
      in persistToStorage opts v (callUpdaters call v (st\<lparr>valueCell := v\<rparr>)))"

text \<open>
  Modelled from the spec: the update operation of the build that takes the option
  \<^verbatim>\<open>onUpdate\<close>. The sources hold its declaration and its test only; section 4.2 of
  the specification gives the steps: the new value is computed, the value cell is
  overwritten, the listeners are notified, the value is persisted, and then
  \<^verbatim>\<open>onUpdate\<close>, if present, is invoked with the new value.
\<close>

definition setSyncValue_onUpdate ::
  "('f \<Rightarrow> ('a, 'f) jsval \<Rightarrow> ('a, 'f) jsval) \<Rightarrow> ('a, 'f) options \<Rightarrow> bool \<Rightarrow> ('a, 'f) jsval \<Rightarrow>
   ('a, 'f) sync_state \<Rightarrow> ('a, 'f) sync_state" where
  "setSyncValue_onUpdate call opts onUpdate nv st =
     (let st1 = setSyncValue call opts nv st
      in if onUpdate then st1\<lparr>trace := trace st1 @ [OnUpdate (valueCell st1)]\<rparr> else st1)"

subsection \<open>The hook\<close>

text \<open>
  The body of \<^verbatim>\<open>useSyncValue(mapper)\<close> in a render of consumer \<open>c\<close>:
  \<^verbatim>\<open>useState\<close> computes the initial state in the first render only, the mapper
  is stored in \<^verbatim>\<open>mapperRef\<close> in every render, and the state is returned.
\<close>

definition useSyncValue ::
  "('f \<Rightarrow> ('a, 'f) jsval \<Rightarrow> ('a, 'f) jsval) \<Rightarrow> nat \<Rightarrow> 'f option \<Rightarrow>
   ('a, 'f) sync_state \<Rightarrow> ('a, 'f) jsval \<times> ('a, 'f) sync_state" where
  "useSyncValue call c mapper st =
     (let s = (case hookState st c of
                 Some s \<Rightarrow> s
               | None \<Rightarrow> (case mapper of Some m \<Rightarrow> call m (valueCell st) | None \<Rightarrow> valueCell st))
      in (s, st\<lparr>hookState := (hookState st)(c \<mapsto> s), mapperRef := (mapperRef st)(c := mapper)\<rparr>))"

text \<open>\<^verbatim>\<open>Array.prototype.indexOf\<close>: the first index of the element, or \<open>-1\<close>.\<close>

fun indexOf :: "'x list \<Rightarrow> 'x \<Rightarrow> int" where
  "indexOf [] x = - 1"
| "indexOf (y # ys) x =
     (if y = x then 0 else (let i = indexOf ys x in if i < 0 then - 1 else i + 1))"

text \<open>
  \<^verbatim>\<open>Array.prototype.splice(start, deleteCount)\<close>: a negative start counts from
  the end, and the start is clamped to the array.
\<close>

definition splice :: "'x list \<Rightarrow> int \<Rightarrow> nat \<Rightarrow> 'x list" where
  "splice xs start deleteCount =
     (let len = int (length xs);
          s = nat (if start < 0 then max (len + start) 0 else min start len)
      in take s xs @ drop (s + deleteCount) xs)"

text \<open>
  The effect of the hook for consumer \<open>c\<close>: the state updater is pushed, and the
  first one registers the listener on the window when there is a storage and a key.
\<close>

definition useSyncValue_effect ::
  "('a, 'f) options \<Rightarrow> nat \<Rightarrow> ('a, 'f) sync_state \<Rightarrow> ('a, 'f) sync_state" where
  "useSyncValue_effect opts c st =
     (let st1 = st\<lparr>updaters := updaters st @ [c]\<rparr>
      in if length (updaters st1) = 1 \<and> storage_and_key opts then st1\<lparr>listening := True\<rparr> else st1)"

text \<open>
  The function returned by the effect:
  \<^verbatim>\<open>updaters.splice(updaters.indexOf(stateUpdater), 1)\<close>, and the listener is
  removed from the window when no updater is left.
\<close>

definition useSyncValue_cleanup ::
  "('a, 'f) options \<Rightarrow> nat \<Rightarrow> ('a, 'f) sync_state \<Rightarrow> ('a, 'f) sync_state" where
  "useSyncValue_cleanup opts c st =
     (let st1 = st\<lparr>updaters := splice (updaters st) (indexOf (updaters st) c) 1\<rparr>
      in if length (updaters st1) = 0 \<and> storage_and_key opts then st1\<lparr>listening := False\<rparr> else st1)"

subsection \<open>The window and the life of an instance\<close>

text \<open>
  A storage event dispatched on the window reaches \<^verbatim>\<open>storageEventListener\<close>
  exactly when it is registered.
\<close>

definition dispatchEvent ::
  "('f \<Rightarrow> ('a, 'f) jsval \<Rightarrow> ('a, 'f) jsval) \<Rightarrow> ('a, 'f) options \<Rightarrow> storage_event \<Rightarrow>
   ('a, 'f) sync_state \<Rightarrow> ('a, 'f) sync_state" where
  "dispatchEvent call opts ev st =
     (if listening st then storageEventListener call opts ev st else st)"

text \<open>
  The event that a browser sends to the other windows after key \<open>k\<close> of storage
  \<open>a\<close> was written: the storage, the key and the new content.
\<close>

definition storage_event_of ::
  "storage_area \<Rightarrow> string \<Rightarrow> ('a, 'f, 'z) world_scheme \<Rightarrow> storage_event" where
  "storage_event_of a k w = \<lparr>storageArea = Some a, eventKey = Some k, newValue = items w a k\<rparr>"

text \<open>What can happen to an instance after its construction, and a run of such steps.\<close>

datatype ('a, 'f) operation =
    Render nat "'f option"
  | Attach nat
  | Detach nat
  | Update "('a, 'f) jsval"
  | External storage_event

fun step ::
  "('f \<Rightarrow> ('a, 'f) jsval \<Rightarrow> ('a, 'f) jsval) \<Rightarrow> ('a, 'f) options \<Rightarrow> ('a, 'f) operation \<Rightarrow>
   ('a, 'f) sync_state \<Rightarrow> ('a, 'f) sync_state" where
  "step call opts (Render c mapper) st = snd (useSyncValue call c mapper st)"
| "step call opts (Attach c) st = useSyncValue_effect opts c st"
| "step call opts (Detach c) st = useSyncValue_cleanup opts c st"
| "step call opts (Update nv) st = setSyncValue call opts nv st"
| "step call opts (External ev) st = dispatchEvent call opts ev st"

definition run ::
  "('f \<Rightarrow> ('a, 'f) jsval \<Rightarrow> ('a, 'f) jsval) \<Rightarrow> ('a, 'f) options \<Rightarrow> ('a, 'f) operation list \<Rightarrow>
   ('a, 'f) sync_state \<Rightarrow> ('a, 'f) sync_state" where
  "run call opts ops st = fold (step call opts) ops st"

subsection \<open>The default codec\<close>

text \<open>
  \<^verbatim>\<open>serialize = JSON.stringify\<close> and
  \<^verbatim>\<open>deserialize = stringValue => JSON.parse(stringValue || 'null')\<close>, over the
  two built-in functions: a \<^verbatim>\<open>null\<close> and an empty string are replaced by the
  text \<^verbatim>\<open>null\<close>.
\<close>

definition default_serialize ::
  "(('a, 'f) jsval \<Rightarrow> string) \<Rightarrow> ('a, 'f) jsval \<Rightarrow> string" where
  "default_serialize stringify v = stringify v"

definition default_deserialize ::
  "(string \<Rightarrow> ('a, 'f) jsval) \<Rightarrow> string option \<Rightarrow> ('a, 'f) jsval" where
  "default_deserialize parse stringValue =
     parse (case stringValue of None \<Rightarrow> ''null'' | Some s \<Rightarrow> if s = [] then ''null'' else s)"

subsection \<open>Sample functions and a sample codec\<close>

text \<open>
  Concrete function values over the integers: \<open>Plus n\<close> is
  \<^verbatim>\<open>v => typeof v === 'number' ? v + n : v\<close> and \<open>Times n\<close> is
  \<^verbatim>\<open>v => typeof v === 'number' ? v * n : v\<close>.
\<close>

datatype arith = Plus int | Times int

fun call_arith :: "arith \<Rightarrow> (int, arith) jsval \<Rightarrow> (int, arith) jsval" where
  "call_arith (Plus n) (JVal m) = JVal (m + n)"
| "call_arith (Times n) (JVal m) = JVal (m * n)"
| "call_arith f v = v"

text \<open>
  A codec for integers in decimal notation: a number is written with its digits, any
  other value as the text \<^verbatim>\<open>null\<close>; a text that is not a decimal integer, and
  an absent one, is read as \<^verbatim>\<open>null\<close>. On \<^verbatim>\<open>null\<close> and on the integers
  that a JavaScript number holds exactly, \<open>number_serialize\<close> writes what
  \<^verbatim>\<open>JSON.stringify\<close> writes, and \<open>number_parse\<close> reads these texts as
  \<^verbatim>\<open>JSON.parse\<close> reads them.
\<close>

definition digit_char :: "nat \<Rightarrow> char" where
  "digit_char d = ''0123456789'' ! d"

fun decimal :: "nat \<Rightarrow> string" where
  "decimal n = (if n < 10 then [digit_char n] else decimal (n div 10) @ [digit_char (n mod 10)])"

definition digit_of :: "char \<Rightarrow> nat option" where
  "digit_of c =
     map_of [(CHR ''0'', 0), (CHR ''1'', 1), (CHR ''2'', 2), (CHR ''3'', 3), (CHR ''4'', 4),
             (CHR ''5'', 5), (CHR ''6'', 6), (CHR ''7'', 7), (CHR ''8'', 8), (CHR ''9'', 9)] c"

fun digits_value :: "nat \<Rightarrow> string \<Rightarrow> nat option" where
  "digits_value acc [] = Some acc"
| "digits_value acc (c # cs) =
     (case digit_of c of None \<Rightarrow> None | Some d \<Rightarrow> digits_value (10 * acc + d) cs)"

definition number_serialize :: "(int, 'f) jsval \<Rightarrow> string" where
  "number_serialize v =
     (case v of
        JVal i \<Rightarrow> (if i < 0 then CHR ''-'' # decimal (nat (- i)) else decimal (nat i))
      | _ \<Rightarrow> ''null'')"

definition number_parse :: "string \<Rightarrow> (int, 'f) jsval" where
  "number_parse s =
     (case s of
        [] \<Rightarrow> JNull
      | c # cs \<Rightarrow>
          if c = CHR ''-'' then
            (case cs of [] \<Rightarrow> JNull
             | _ \<Rightarrow> (case digits_value 0 cs of None \<Rightarrow> JNull | Some n \<Rightarrow> JVal (- int n)))
          else (case digits_value 0 s of None \<Rightarrow> JNull | Some n \<Rightarrow> JVal (int n)))"

definition number_deserialize :: "string option \<Rightarrow> (int, 'f) jsval" where
  "number_deserialize stringValue = (case stringValue of None \<Rightarrow> JNull | Some s \<Rightarrow> number_parse s)"

text \<open>
  Sample options for a counter that starts at 0: without a store, and with the local
  storage under the key \<^verbatim>\<open>k\<close> and the default codec, in which the two decimal
  functions stand for the JSON built-ins.
\<close>

definition counter_options :: "(int, arith) options" where
  "counter_options =
     \<lparr>defaultValue = JVal 0, key = None, storage = None,
      serialize = number_serialize, deserialize = number_deserialize, onInit = False\<rparr>"

definition stored_counter_options :: "(int, arith) options" where
  "stored_counter_options =
     \<lparr>defaultValue = JVal 0, key = Some ''k'', storage = Some LocalStorage,
      serialize = default_serialize number_serialize,
      deserialize = default_deserialize number_parse, onInit = False\<rparr>"

definition empty_world :: "(int, arith) world" where
  "empty_world = \<lparr>items = (\<lambda>a k. None), trace = []\<rparr>"

section \<open>Notions of the specification\<close>

text \<open>The write to the store that persisting \<open>v\<close> makes: one when a store and a key are configured.\<close>

definition store_writes :: "('a, 'f) options \<Rightarrow> ('a, 'f) jsval \<Rightarrow> ('a, 'f) effect list" where
  "store_writes opts v =
     (case (storage opts, key opts) of
        (Some a, Some k) \<Rightarrow> if k \<noteq> [] then [SetItem a k (serialize opts v)] else []
      | _ \<Rightarrow> [])"

text \<open>
  The value that a listener observes when it is notified with the raw value \<open>v\<close>:
  its own projection of \<open>v\<close>, or \<open>v\<close> when it has none.
\<close>

definition projected ::
  "('f \<Rightarrow> ('a, 'f) jsval \<Rightarrow> ('a, 'f) jsval) \<Rightarrow> 'f option \<Rightarrow> ('a, 'f) jsval \<Rightarrow> ('a, 'f) jsval" where
  "projected call mapper v = (case mapper of Some m \<Rightarrow> call m v | None \<Rightarrow> v)"

text \<open>
  The first case of the initial value: a store and a key are configured, the store
  holds an entry for the key, and the entry decodes to a value other than
  \<^verbatim>\<open>null\<close>.
\<close>

definition decodable_entry :: "('a, 'f) options \<Rightarrow> ('a, 'f) world \<Rightarrow> ('a, 'f) jsval option" where
  "decodable_entry opts w =
     (case (storage opts, key opts) of
        (Some a, Some k) \<Rightarrow>
          (case items w a k of
             Some raw \<Rightarrow>
               if deserialize opts (Some raw) \<noteq> JNull then Some (deserialize opts (Some raw)) else None
           | None \<Rightarrow> None)
      | _ \<Rightarrow> None)"

text \<open>
  The consumers that are attached after a run that started with the consumers \<open>cs\<close>
  attached, in the order of their attachment; and the runs in which the effect and
  the teardown of each consumer alternate, as the effect lifecycle has it: a consumer
  attaches only while detached and detaches only while attached.
\<close>

fun attached :: "('a, 'f) operation list \<Rightarrow> nat list \<Rightarrow> nat list" where
  "attached [] cs = cs"
| "attached (Attach c # ops) cs = attached ops (cs @ [c])"
| "attached (Detach c # ops) cs = attached ops (removeAll c cs)"
| "attached (_ # ops) cs = attached ops cs"

fun alternating :: "('a, 'f) operation list \<Rightarrow> nat list \<Rightarrow> bool" where
  "alternating [] cs = True"
| "alternating (Attach c # ops) cs = (c \<notin> set cs \<and> alternating ops (cs @ [c]))"
| "alternating (Detach c # ops) cs = (c \<in> set cs \<and> alternating ops (removeAll c cs))"
| "alternating (_ # ops) cs = alternating ops cs"

text \<open>Sample states: a store that holds the text \<^verbatim>\<open>5\<close> under the key, and an
  instance at the value 1 with two attached consumers, the second of which projects
  the value to its double.\<close>

definition stored_five :: "(int, arith) world" where
  "stored_five = \<lparr>items = (\<lambda>a k. None)(LocalStorage := [''k'' \<mapsto> ''5'']), trace = []\<rparr>"

definition counter_at_one :: "(int, arith) sync_state" where
  "counter_at_one =
     \<lparr>items = (\<lambda>a k. None)(LocalStorage := [''k'' \<mapsto> ''1'']), trace = [], valueCell = JVal 1,
      updaters = [0, 1], listening = True, hookState = [0 \<mapsto> JVal 1, 1 \<mapsto> JVal 2],
      mapperRef = [1 \<mapsto> Times 2]\<rparr>"

text \<open>The instance made from the default 0 with no store, after consumer 0 has rendered
  and attached.\<close>

definition counter_attached :: "(int, arith) sync_state" where
  "counter_attached =
     \<lparr>items = (\<lambda>a k. None), trace = [], valueCell = JVal 0, updaters = [0],
      listening = False, hookState = [0 \<mapsto> JVal 0], mapperRef = (\<lambda>c. None)\<rparr>"

text \<open>The values with which \<^verbatim>\<open>onUpdate\<close> was called, in order.\<close>

fun onUpdate_calls :: "('a, 'f) effect list \<Rightarrow> ('a, 'f) jsval list" where
  "onUpdate_calls [] = []"
| "onUpdate_calls (OnUpdate v # es) = v # onUpdate_calls es"
| "onUpdate_calls (e # es) = onUpdate_calls es"

text \<open>A sample event: the other window wrote the text \<^verbatim>\<open>5\<close> under the key.\<close>

definition five_arrives :: storage_event where
  "five_arrives = \<lparr>storageArea = Some LocalStorage, eventKey = Some ''k'', newValue = Some ''5''\<rparr>"

text \<open>The instances that the constructor makes from the two sample options and the
  empty world.\<close>

definition created_stored_counter :: "(int, arith) sync_state" where
  "created_stored_counter = \<lparr>items = (\<lambda>a k. None)(LocalStorage := [''k'' \<mapsto> ''0'']),
     trace = [SetItem LocalStorage ''k'' ''0''],
     valueCell = JVal 0, updaters = [], listening = False,
     hookState = (\<lambda>c. None), mapperRef = (\<lambda>c. None)\<rparr>"

definition created_counter :: "(int, arith) sync_state" where
  "created_counter = \<lparr>items = (\<lambda>a k. None), trace = [], valueCell = JVal 0, updaters = [],
     listening = False, hookState = (\<lambda>c. None), mapperRef = (\<lambda>c. None)\<rparr>"

section \<open>Theorems\<close>

subsection \<open>The fields that each operation leaves alone\<close>

lemma stateUpdater_fields:
  "updaters (stateUpdater call c v st) = updaters st"
  "listening (stateUpdater call c v st) = listening st"
  "valueCell (stateUpdater call c v st) = valueCell st"
  "items (stateUpdater call c v st) = items st"
  "mapperRef (stateUpdater call c v st) = mapperRef st"
  "trace (stateUpdater call c v st) = trace st @ [Updater c v]"
  by (simp_all add: stateUpdater_def)

lemma stateUpdater_hookState:
  "hookState (stateUpdater call c v st) d =
     (if d = c then Some (projected call (mapperRef st c) v) else hookState st d)"
  by (simp add: stateUpdater_def projected_def)

lemma fold_stateUpdater_fields:
  "updaters (fold (\<lambda>c. stateUpdater call c v) cs st) = updaters st"
  "listening (fold (\<lambda>c. stateUpdater call c v) cs st) = listening st"
  "valueCell (fold (\<lambda>c. stateUpdater call c v) cs st) = valueCell st"
  "items (fold (\<lambda>c. stateUpdater call c v) cs st) = items st"
  "mapperRef (fold (\<lambda>c. stateUpdater call c v) cs st) = mapperRef st"
  by (induction cs arbitrary: st) (simp_all add: stateUpdater_fields)

lemma fold_stateUpdater_trace:
  "trace (fold (\<lambda>c. stateUpdater call c v) cs st) = trace st @ map (\<lambda>c. Updater c v) cs"
  by (induction cs arbitrary: st) (simp_all add: stateUpdater_fields)

lemma fold_stateUpdater_hookState:
  "hookState (fold (\<lambda>c. stateUpdater call c v) cs st) c =
     (if c \<in> set cs then Some (projected call (mapperRef st c) v) else hookState st c)"
proof (induction cs arbitrary: st rule: rev_induct)
  case Nil
  show ?case by simp
next
  case (snoc d ds)
  show ?case
    by (simp add: snoc.IH stateUpdater_hookState fold_stateUpdater_fields)
qed

lemma callUpdaters_fields:
  "updaters (callUpdaters call v st) = updaters st"
  "listening (callUpdaters call v st) = listening st"
  "valueCell (callUpdaters call v st) = valueCell st"
  "items (callUpdaters call v st) = items st"
  "mapperRef (callUpdaters call v st) = mapperRef st"
  by (simp_all add: callUpdaters_def fold_stateUpdater_fields)

lemma callUpdaters_trace:
  "trace (callUpdaters call v st) = trace st @ map (\<lambda>c. Updater c v) (updaters st)"
  by (simp add: callUpdaters_def fold_stateUpdater_trace)

lemma callUpdaters_hookState:
  "hookState (callUpdaters call v st) c =
     (if c \<in> set (updaters st) then Some (projected call (mapperRef st c) v) else hookState st c)"
  by (simp add: callUpdaters_def fold_stateUpdater_hookState)

lemma persistToStorage_fields:
  "valueCell (persistToStorage opts v st) = valueCell st"
  "updaters (persistToStorage opts v st) = updaters st"
  "listening (persistToStorage opts v st) = listening st"
  "hookState (persistToStorage opts v st) = hookState st"
  "mapperRef (persistToStorage opts v st) = mapperRef st"
  by (simp_all add: persistToStorage_def split: option.splits)

lemma persistToStorage_trace:
  "trace (persistToStorage opts v w) = trace w @ store_writes opts v"
  by (simp add: persistToStorage_def store_writes_def split: option.splits)

lemma setSyncValue_unfold:
  "setSyncValue call opts nv st =
     persistToStorage opts (case nv of JFun f \<Rightarrow> call f (valueCell st) | _ \<Rightarrow> nv)
       (callUpdaters call (case nv of JFun f \<Rightarrow> call f (valueCell st) | _ \<Rightarrow> nv)
          (st\<lparr>valueCell := (case nv of JFun f \<Rightarrow> call f (valueCell st) | _ \<Rightarrow> nv)\<rparr>))"
  by (simp add: setSyncValue_def Let_def)

lemma setSyncValue_valueCell:
  "valueCell (setSyncValue call opts nv st) =
     (case nv of JFun f \<Rightarrow> call f (valueCell st) | _ \<Rightarrow> nv)"
  by (simp add: setSyncValue_unfold persistToStorage_fields callUpdaters_fields)

lemma setSyncValue_fields:
  "updaters (setSyncValue call opts nv st) = updaters st"
  "listening (setSyncValue call opts nv st) = listening st"
  "mapperRef (setSyncValue call opts nv st) = mapperRef st"
  by (simp_all add: setSyncValue_unfold persistToStorage_fields callUpdaters_fields)

lemma setSyncValue_trace:
  "trace (setSyncValue call opts nv st) =
     trace st @ map (\<lambda>c. Updater c (valueCell (setSyncValue call opts nv st))) (updaters st)
       @ store_writes opts (valueCell (setSyncValue call opts nv st))"
  unfolding setSyncValue_valueCell
  by (simp add: setSyncValue_unfold persistToStorage_trace callUpdaters_trace)

lemma setSyncValue_hookState:
  "hookState (setSyncValue call opts nv st) c =
     (if c \<in> set (updaters st)
      then Some (projected call (mapperRef st c) (valueCell (setSyncValue call opts nv st)))
      else hookState st c)"
  unfolding setSyncValue_valueCell
  by (simp add: setSyncValue_unfold persistToStorage_fields callUpdaters_hookState)

subsection \<open>The update operation\<close>

text \<open>
  C1. An update given a function applies it to the content of the value cell, and any
  other argument is the new value itself. The value cell is overwritten with the new
  value. The effects of the update are, in this order, one call of the state updater
  of each registered listener with the raw new value, in the order of registration,
  and then the write to the store (when a store and a key are configured); each
  listener then observes its own projection of the new value.
\<close>

theorem setSyncValue_notifies_then_persists:
  "valueCell (setSyncValue call opts nv st) =
     (case nv of JFun f \<Rightarrow> call f (valueCell st) | _ \<Rightarrow> nv) \<and>
   trace (setSyncValue call opts nv st) =
     trace st @ map (\<lambda>c. Updater c (valueCell (setSyncValue call opts nv st))) (updaters st)
       @ store_writes opts (valueCell (setSyncValue call opts nv st)) \<and>
   (\<forall>c \<in> set (updaters st).
      hookState (setSyncValue call opts nv st) c =
        Some (projected call (mapperRef st c) (valueCell (setSyncValue call opts nv st))))"
  using setSyncValue_valueCell [of call opts nv st] setSyncValue_trace [of call opts nv st]
  by (simp add: setSyncValue_hookState)

theorem setSyncValue_notifies_then_persists_witness:
  "hookState (run call_arith counter_options [Update (JVal 1)] counter_attached) 0 = Some (JVal 1) \<and>
   hookState (run call_arith counter_options [Update (JVal 1), Update (JFun (Plus 1))]
                counter_attached) 0 = Some (JVal 2) \<and>
   hookState (run call_arith counter_options
                [Update (JVal 1), Update (JFun (Plus 1)), Update (JFun (Times 3))]
                counter_attached) 0 = Some (JVal 6) \<and>
   valueCell (setSyncValue call_arith stored_counter_options (JFun (Plus 1)) counter_at_one) = JVal 2 \<and>
   trace (setSyncValue call_arith stored_counter_options (JFun (Plus 1)) counter_at_one) =
     [Updater 0 (JVal 2), Updater 1 (JVal 2), SetItem LocalStorage ''k'' ''2''] \<and>
   hookState (setSyncValue call_arith stored_counter_options (JFun (Plus 1)) counter_at_one) 1 =
     Some (JVal 4)"
proof -
  let ?s1 = "setSyncValue call_arith counter_options (JVal 1) counter_attached"
  let ?s2 = "setSyncValue call_arith counter_options (JFun (Plus 1)) ?s1"
  note first = setSyncValue_notifies_then_persists [of call_arith counter_options "JVal 1" counter_attached]
  note second = setSyncValue_notifies_then_persists [of call_arith counter_options "JFun (Plus 1)" ?s1]
  note third = setSyncValue_notifies_then_persists [of call_arith counter_options "JFun (Times 3)" ?s2]
  have chain:
    "hookState ?s1 0 = Some (JVal 1) \<and> hookState ?s2 0 = Some (JVal 2) \<and>
     hookState (setSyncValue call_arith counter_options (JFun (Times 3)) ?s2) 0 = Some (JVal 6)"
    using first second third
    by (simp add: setSyncValue_fields counter_attached_def projected_def)
  have stored:
    "valueCell (setSyncValue call_arith stored_counter_options (JFun (Plus 1)) counter_at_one) = JVal 2 \<and>
     trace (setSyncValue call_arith stored_counter_options (JFun (Plus 1)) counter_at_one) =
       [Updater 0 (JVal 2), Updater 1 (JVal 2), SetItem LocalStorage ''k'' ''2''] \<and>
     hookState (setSyncValue call_arith stored_counter_options (JFun (Plus 1)) counter_at_one) 1 =
       Some (JVal 4)"
    using setSyncValue_notifies_then_persists
            [of call_arith stored_counter_options "JFun (Plus 1)" counter_at_one]
    by (simp add: counter_at_one_def stored_counter_options_def store_writes_def projected_def
        default_serialize_def number_serialize_def digit_char_def)
  from chain stored show ?thesis
    by (simp add: run_def)
qed

text \<open>The instance of the example is the one that the constructor makes from the
  default 0, once consumer 0 has rendered and attached; its first read is 0.\<close>

lemma counter_attached_created:
  "createSyncState counter_options empty_world = Inr st0 \<Longrightarrow>
   fst (useSyncValue call_arith 0 None st0) = JVal 0 \<and>
   run call_arith counter_options [Render 0 None, Attach 0] st0 = counter_attached"
  by (auto simp add: createSyncState_def counter_options_def empty_world_def getInitialValue_def
      persistToStorage_def run_def useSyncValue_def useSyncValue_effect_def storage_and_key_def
      truthy_def counter_attached_def Let_def)

subsection \<open>Construction\<close>

lemma persistToStorage_items:
  "items (persistToStorage opts v w) =
     (case (storage opts, key opts) of
        (Some a, Some k) \<Rightarrow>
          if k \<noteq> [] then (items w)(a := (items w a)(k \<mapsto> serialize opts v)) else items w
      | _ \<Rightarrow> items w)"
  by (simp add: persistToStorage_def split: option.splits)

lemma getInitialValue_decodable:
  assumes "deserialize opts None = JNull" and "storage opts = None \<or> truthy (key opts)"
  shows "getInitialValue opts w =
     (case decodable_entry opts w of
        Some v \<Rightarrow> (v, w)
      | None \<Rightarrow> (defaultValue opts, persistToStorage opts (defaultValue opts) w))"
  using assms
  by (auto simp add: getInitialValue_def decodable_entry_def truthy_def split: option.splits)

lemma createSyncState_succeeds:
  "storage opts = None \<or> truthy (key opts) \<Longrightarrow> \<exists>st. createSyncState opts w = Inr st"
  by (auto simp add: createSyncState_def Let_def split: prod.splits)

text \<open>
  C2. Let the decoder answer \<^verbatim>\<open>null\<close> to \<^verbatim>\<open>null\<close>, as the codec contract
  requires, and let the construction succeed. If a store and a key are configured and
  the store holds an entry for the key that decodes to a value other than
  \<^verbatim>\<open>null\<close>, the decoded value is the initial value and the store is not written:
  its contents are the same and the only effect is the call of \<^verbatim>\<open>onInit\<close>, if
  supplied. Otherwise the initial value is the default, and when a store and a key are
  configured the encoded default is written under the key, before \<^verbatim>\<open>onInit\<close>.
\<close>

theorem createSyncState_initial_value:
  assumes "deserialize opts None = JNull" and "createSyncState opts w = Inr st"
  shows "case decodable_entry opts w of
           Some v \<Rightarrow>
             valueCell st = v \<and> items st = items w \<and>
             trace st = trace w @ (if onInit opts then [OnInit v] else [])
         | None \<Rightarrow>
             valueCell st = defaultValue opts \<and>
             items st =
               (case (storage opts, key opts) of
                  (Some a, Some k) \<Rightarrow> (items w)(a := (items w a)(k \<mapsto> serialize opts (defaultValue opts)))
                | _ \<Rightarrow> items w) \<and>
             trace st = trace w @ store_writes opts (defaultValue opts)
                          @ (if onInit opts then [OnInit (defaultValue opts)] else [])"
proof -
  from assms(2) have ok: "storage opts = None \<or> truthy (key opts)"
    by (auto simp add: createSyncState_def split: if_splits)
  note init = getInitialValue_decodable [OF assms(1) ok, of w]
  show ?thesis
  proof (cases "decodable_entry opts w")
    case (Some v)
    with assms(2) ok init show ?thesis
      by (auto simp add: createSyncState_def Let_def)
  next
    case None
    with assms(2) ok init show ?thesis
      by (auto simp add: createSyncState_def Let_def persistToStorage_items persistToStorage_trace
          truthy_def split: option.splits)
  qed
qed

text \<open>With the store, the key \<^verbatim>\<open>k\<close> and the default 0: an empty store is left
  with exactly the text \<^verbatim>\<open>0\<close> under \<^verbatim>\<open>k\<close>, written once; a store that holds
  \<^verbatim>\<open>5\<close> gives the initial value 5 and is not written.\<close>

theorem createSyncState_initial_value_witness:
  "(\<exists>st. createSyncState stored_counter_options empty_world = Inr st \<and>
      valueCell st = JVal 0 \<and>
      items st = (\<lambda>a k. None)(LocalStorage := [''k'' \<mapsto> ''0'']) \<and>
      trace st = [SetItem LocalStorage ''k'' ''0'']) \<and>
   (\<exists>st. createSyncState stored_counter_options stored_five = Inr st \<and>
      valueCell st = JVal 5 \<and> items st = items stored_five \<and> trace st = [])"
proof -
  have c: "deserialize stored_counter_options None = JNull"
    by (simp add: stored_counter_options_def default_deserialize_def number_parse_def digit_of_def)
  have k: "truthy (key stored_counter_options)"
    by (simp add: stored_counter_options_def truthy_def)
  obtain s1 where s1: "createSyncState stored_counter_options empty_world = Inr s1"
    using createSyncState_succeeds [of stored_counter_options empty_world] k by blast
  obtain s2 where s2: "createSyncState stored_counter_options stored_five = Inr s2"
    using createSyncState_succeeds [of stored_counter_options stored_five] k by blast
  have e1: "decodable_entry stored_counter_options empty_world = None"
    by (simp add: decodable_entry_def stored_counter_options_def empty_world_def)
  have e2: "decodable_entry stored_counter_options stored_five = Some (JVal 5)"
    by (simp add: decodable_entry_def stored_counter_options_def stored_five_def
        default_deserialize_def number_parse_def digit_of_def)
  have "valueCell s1 = JVal 0 \<and> items s1 = (\<lambda>a k. None)(LocalStorage := [''k'' \<mapsto> ''0'']) \<and>
      trace s1 = [SetItem LocalStorage ''k'' ''0'']"
    using createSyncState_initial_value [OF c s1] e1
    by (simp add: stored_counter_options_def empty_world_def store_writes_def
        default_serialize_def number_serialize_def digit_char_def)
  moreover have "valueCell s2 = JVal 5 \<and> items s2 = items stored_five \<and> trace s2 = []"
    using createSyncState_initial_value [OF c s2] e2
    by (simp add: stored_counter_options_def stored_five_def)
  ultimately show ?thesis using s1 s2 by simp
qed

text \<open>The constructor of the TypeScript source does not read the store: whatever
  the store holds, the initial value is the default and the default is written.\<close>

lemma createSyncState_ts_initial_value:
  assumes "createSyncState_ts opts w = Inr st"
  shows "valueCell st = defaultValue opts \<and>
         trace st = trace w @ store_writes opts (defaultValue opts)"
  using assms
  by (auto simp add: createSyncState_ts_def Let_def persistToStorage_trace split: if_splits)

subsection \<open>External notifications\<close>

lemma storageEventListener_match:
  assumes "storageArea ev = Some a" and "storage opts = Some a"
    and "eventKey ev = Some k" and "key opts = Some k"
    and "deserialize opts (newValue ev) \<noteq> JNull"
  shows "storageEventListener call opts ev st =
           callUpdaters call (deserialize opts (newValue ev))
             (st\<lparr>valueCell := deserialize opts (newValue ev)\<rparr>)"
  using assms by (simp add: storageEventListener_def strict_equal_def Let_def)

text \<open>
  C3. When the storage and the key of a notification are those of the instance and
  the new raw value decodes to a value other than \<^verbatim>\<open>null\<close>, the value cell
  is overwritten with the decoded value, the effects of the handling are the calls of
  the state updaters of the registered listeners with the decoded value, in the order
  of registration, and nothing else: no write to the store is among them, and the
  contents of the store are the same.
\<close>

theorem storageEventListener_updates_without_write:
  assumes "storageArea ev = Some a" and "storage opts = Some a"
    and "eventKey ev = Some k" and "key opts = Some k"
    and "deserialize opts (newValue ev) \<noteq> JNull"
  shows "valueCell (storageEventListener call opts ev st) = deserialize opts (newValue ev) \<and>
         trace (storageEventListener call opts ev st) =
           trace st @ map (\<lambda>c. Updater c (deserialize opts (newValue ev))) (updaters st) \<and>
         (\<forall>c \<in> set (updaters st).
            hookState (storageEventListener call opts ev st) c =
              Some (projected call (mapperRef st c) (deserialize opts (newValue ev)))) \<and>
         items (storageEventListener call opts ev st) = items st"
  by (simp add: storageEventListener_match [OF assms] callUpdaters_fields callUpdaters_trace
      callUpdaters_hookState)

theorem storageEventListener_updates_without_write_witness:
  "valueCell (storageEventListener call_arith stored_counter_options five_arrives counter_at_one) = JVal 5 \<and>
   trace (storageEventListener call_arith stored_counter_options five_arrives counter_at_one) =
     [Updater 0 (JVal 5), Updater 1 (JVal 5)] \<and>
   hookState (storageEventListener call_arith stored_counter_options five_arrives counter_at_one) 0 =
     Some (JVal 5) \<and>
   hookState (storageEventListener call_arith stored_counter_options five_arrives counter_at_one) 1 =
     Some (JVal 10) \<and>
   items (storageEventListener call_arith stored_counter_options five_arrives counter_at_one) =
     items counter_at_one"
proof -
  have d: "deserialize stored_counter_options (newValue five_arrives) = JVal 5"
    by (simp add: stored_counter_options_def five_arrives_def default_deserialize_def
        number_parse_def digit_of_def)
  have area: "storageArea five_arrives = Some LocalStorage"
    and store: "storage stored_counter_options = Some LocalStorage"
    and evkey: "eventKey five_arrives = Some ''k''"
    and optkey: "key stored_counter_options = Some ''k''"
    by (simp_all add: five_arrives_def stored_counter_options_def)
  have nonnull: "deserialize stored_counter_options (newValue five_arrives) \<noteq> JNull"
    by (simp add: d)
  from storageEventListener_updates_without_write
         [OF area store evkey optkey nonnull, of call_arith counter_at_one, unfolded d]
  show ?thesis
    by (simp add: counter_at_one_def projected_def)
qed

text \<open>
  C4. With a decoder that answers \<^verbatim>\<open>null\<close> to \<^verbatim>\<open>null\<close>, as the codec
  contract requires: a notification whose storage is not that of the instance, or
  whose key is not that of the instance, or whose new raw value is absent or decodes
  to \<^verbatim>\<open>null\<close>, leaves the whole instance as it was. The value cell is the
  same, no listener is called, and the handler returns normally.
\<close>

theorem storageEventListener_ignores:
  assumes "deserialize opts None = JNull"
    and "\<not> strict_equal (storageArea ev) (storage opts) \<or>
         \<not> strict_equal (eventKey ev) (key opts) \<or>
         newValue ev = None \<or> deserialize opts (newValue ev) = JNull"
  shows "storageEventListener call opts ev st = st"
  using assms by (auto simp add: storageEventListener_def Let_def)

theorem storageEventListener_ignores_witness:
  "storageEventListener call_arith stored_counter_options
     \<lparr>storageArea = Some SessionStorage, eventKey = Some ''k'', newValue = Some ''5''\<rparr>
     counter_at_one = counter_at_one \<and>
   storageEventListener call_arith stored_counter_options
     \<lparr>storageArea = Some LocalStorage, eventKey = Some ''other'', newValue = Some ''5''\<rparr>
     counter_at_one = counter_at_one \<and>
   storageEventListener call_arith stored_counter_options
     \<lparr>storageArea = Some LocalStorage, eventKey = Some ''k'', newValue = None\<rparr>
     counter_at_one = counter_at_one \<and>
   storageEventListener call_arith stored_counter_options
     \<lparr>storageArea = Some LocalStorage, eventKey = Some ''k'', newValue = Some ''null''\<rparr>
     counter_at_one = counter_at_one"
proof -
  have c: "deserialize stored_counter_options None = JNull"
    by (simp add: stored_counter_options_def default_deserialize_def number_parse_def digit_of_def)
  have n: "deserialize stored_counter_options (Some ''null'') = JNull"
    by (simp add: stored_counter_options_def default_deserialize_def number_parse_def digit_of_def)
  have s: "storage stored_counter_options = Some LocalStorage"
    and k: "key stored_counter_options = Some ''k''"
    by (simp_all add: stored_counter_options_def)
  note ignores = storageEventListener_ignores [OF c, of _ call_arith counter_at_one]
  have "storageEventListener call_arith stored_counter_options
     \<lparr>storageArea = Some SessionStorage, eventKey = Some ''k'', newValue = Some ''5''\<rparr>
     counter_at_one = counter_at_one"
    by (rule ignores) (simp add: s strict_equal_def)
  moreover have "storageEventListener call_arith stored_counter_options
     \<lparr>storageArea = Some LocalStorage, eventKey = Some ''other'', newValue = Some ''5''\<rparr>
     counter_at_one = counter_at_one"
    by (rule ignores) (simp add: k strict_equal_def)
  moreover have "storageEventListener call_arith stored_counter_options
     \<lparr>storageArea = Some LocalStorage, eventKey = Some ''k'', newValue = None\<rparr>
     counter_at_one = counter_at_one"
    by (rule ignores) simp
  moreover have "storageEventListener call_arith stored_counter_options
     \<lparr>storageArea = Some LocalStorage, eventKey = Some ''k'', newValue = Some ''null''\<rparr>
     counter_at_one = counter_at_one"
    by (rule ignores) (simp add: n)
  ultimately show ?thesis by simp
qed

subsection \<open>The update callback\<close>

lemma onUpdate_calls_append: "onUpdate_calls (xs @ ys) = onUpdate_calls xs @ onUpdate_calls ys"
  by (induction xs rule: onUpdate_calls.induct) simp_all

lemma onUpdate_calls_Updater: "onUpdate_calls (map (\<lambda>c. Updater c v) cs) = []"
  by (induction cs) simp_all

lemma onUpdate_calls_store_writes: "onUpdate_calls (store_writes opts v) = []"
  by (simp add: store_writes_def split: option.splits)

lemma setSyncValue_onUpdate_valueCell:
  "valueCell (setSyncValue_onUpdate call opts onUpdate nv st) = valueCell (setSyncValue call opts nv st)"
  by (simp add: setSyncValue_onUpdate_def Let_def)

text \<open>
  C5. When \<^verbatim>\<open>onUpdate\<close> is supplied, an update adds to the effects the calls of
  the listeners, then the write to the store, and last one call of \<^verbatim>\<open>onUpdate\<close>
  with the new value: the calls of \<^verbatim>\<open>onUpdate\<close> are those made before and this
  one. When it is not supplied the update is \<^verbatim>\<open>setSyncValue\<close> as it stands.
\<close>

theorem setSyncValue_onUpdate_once_and_last:
  "valueCell (setSyncValue_onUpdate call opts True nv st) =
     (case nv of JFun f \<Rightarrow> call f (valueCell st) | _ \<Rightarrow> nv) \<and>
   trace (setSyncValue_onUpdate call opts True nv st) =
     trace st
       @ map (\<lambda>c. Updater c (valueCell (setSyncValue_onUpdate call opts True nv st))) (updaters st)
       @ store_writes opts (valueCell (setSyncValue_onUpdate call opts True nv st))
       @ [OnUpdate (valueCell (setSyncValue_onUpdate call opts True nv st))] \<and>
   onUpdate_calls (trace (setSyncValue_onUpdate call opts True nv st)) =
     onUpdate_calls (trace st) @ [valueCell (setSyncValue_onUpdate call opts True nv st)] \<and>
   setSyncValue_onUpdate call opts False nv st = setSyncValue call opts nv st"
proof -
  have t: "trace (setSyncValue_onUpdate call opts True nv st) =
      trace (setSyncValue call opts nv st) @ [OnUpdate (valueCell (setSyncValue call opts nv st))]"
    by (simp add: setSyncValue_onUpdate_def Let_def)
  show ?thesis
    unfolding t setSyncValue_onUpdate_valueCell
    using setSyncValue_trace [of call opts nv st]
    by (simp add: setSyncValue_valueCell onUpdate_calls_append onUpdate_calls_Updater
        onUpdate_calls_store_writes setSyncValue_onUpdate_def Let_def)
qed

theorem setSyncValue_onUpdate_once_and_last_witness:
  "trace (setSyncValue_onUpdate call_arith stored_counter_options True (JFun (Plus 1)) counter_at_one) =
     [Updater 0 (JVal 2), Updater 1 (JVal 2), SetItem LocalStorage ''k'' ''2'', OnUpdate (JVal 2)] \<and>
   onUpdate_calls
     (trace (setSyncValue_onUpdate call_arith stored_counter_options True (JFun (Plus 1)) counter_at_one)) =
     [JVal 2]"
proof -
  note r = setSyncValue_onUpdate_once_and_last
             [of call_arith stored_counter_options "JFun (Plus 1)" counter_at_one]
  then have v: "valueCell (setSyncValue_onUpdate call_arith stored_counter_options True
                  (JFun (Plus 1)) counter_at_one) = JVal 2"
    by (simp add: counter_at_one_def)
  from r show ?thesis
    unfolding v
    by (simp add: counter_at_one_def stored_counter_options_def store_writes_def
        default_serialize_def number_serialize_def digit_char_def)
qed

subsection \<open>The guard of the constructor\<close>

text \<open>
  C6. The constructor fails, with the error \<open>InvalidConfiguration\<close>, exactly when a
  store is supplied without a key, and it succeeds in every other case: with both,
  with neither, and with a key alone. The guard is \<^verbatim>\<open>storage && !key\<close>: a key
  is supplied when it is truthy, so that the empty string, like an omitted key, is no
  key.
\<close>

theorem createSyncState_fails_iff:
  "(createSyncState opts w = Inl InvalidConfiguration) = (storage opts \<noteq> None \<and> \<not> truthy (key opts)) \<and>
   (\<exists>st. createSyncState opts w = Inr st) = (storage opts = None \<or> truthy (key opts))"
  by (auto simp add: createSyncState_def Let_def split: prod.splits)

theorem createSyncState_fails_iff_witness:
  "createSyncState (counter_options\<lparr>storage := Some LocalStorage\<rparr>) empty_world
     = Inl InvalidConfiguration \<and>
   createSyncState (counter_options\<lparr>storage := Some LocalStorage, key := Some []\<rparr>) empty_world
     = Inl InvalidConfiguration \<and>
   (\<exists>st. createSyncState (counter_options\<lparr>storage := Some LocalStorage, key := Some ''k''\<rparr>)
            empty_world = Inr st) \<and>
   (\<exists>st. createSyncState counter_options empty_world = Inr st) \<and>
   (\<exists>st. createSyncState (counter_options\<lparr>key := Some ''k''\<rparr>) empty_world = Inr st)"
  using createSyncState_fails_iff [of "counter_options\<lparr>storage := Some LocalStorage\<rparr>" empty_world]
    createSyncState_fails_iff
      [of "counter_options\<lparr>storage := Some LocalStorage, key := Some []\<rparr>" empty_world]
    createSyncState_fails_iff
      [of "counter_options\<lparr>storage := Some LocalStorage, key := Some ''k''\<rparr>" empty_world]
    createSyncState_fails_iff [of counter_options empty_world]
    createSyncState_fails_iff [of "counter_options\<lparr>key := Some ''k''\<rparr>" empty_world]
  by (simp add: counter_options_def truthy_def)

text \<open>The guard of the TypeScript source, \<^verbatim>\<open>storage instanceof Storage && !key\<close>,
  fails in the same cases.\<close>

lemma createSyncState_ts_fails_iff:
  "(createSyncState_ts opts w = Inl InvalidConfiguration) = (storage opts \<noteq> None \<and> \<not> truthy (key opts))"
  by (simp add: createSyncState_ts_def Let_def)

subsection \<open>A function as the argument of an update\<close>

text \<open>
  C10. Every function passed to the update operation is treated as an updater: the
  value cell afterwards holds the result of calling it with the old value, whatever
  the type of the value is. The function itself is therefore in the cell afterwards
  only if it is what the call returned.
\<close>

theorem setSyncValue_function_is_updater:
  "valueCell (setSyncValue call opts (JFun f) st) = call f (valueCell st) \<and>
   (valueCell (setSyncValue call opts (JFun f) st) = JFun f) = (call f (valueCell st) = JFun f)"
  by (simp add: setSyncValue_valueCell)

theorem setSyncValue_function_is_updater_witness:
  "valueCell (setSyncValue call_arith counter_options (JFun (Plus 1))
               (counter_attached\<lparr>valueCell := JFun (Times 2)\<rparr>)) = JFun (Times 2) \<and>
   valueCell (setSyncValue call_arith counter_options (JFun (Plus 1))
               (counter_attached\<lparr>valueCell := JFun (Times 2)\<rparr>)) \<noteq> JFun (Plus 1)"
  using setSyncValue_function_is_updater
          [of call_arith counter_options "Plus 1" "counter_attached\<lparr>valueCell := JFun (Times 2)\<rparr>"]
  by simp

subsection \<open>Attachment and detachment\<close>

lemma indexOf_absent: "c \<notin> set xs \<Longrightarrow> indexOf xs c = - 1"
  by (induction xs) (auto simp add: Let_def)

lemma indexOf_present:
  "c \<in> set xs \<Longrightarrow> 0 \<le> indexOf xs c \<and> indexOf xs c < int (length xs)"
  by (induction xs) (auto simp add: Let_def)

lemma splice_indexOf_present: "c \<in> set xs \<Longrightarrow> splice xs (indexOf xs c) (Suc 0) = remove1 c xs"
proof (induction xs)
  case Nil
  then show ?case by simp
next
  case (Cons y ys)
  show ?case
  proof (cases "y = c")
    case True
    then show ?thesis by (simp add: splice_def)
  next
    case False
    with Cons.prems have in_ys: "c \<in> set ys" by simp
    note bounds = indexOf_present [OF in_ys]
    have "splice (y # ys) (indexOf (y # ys) c) (Suc 0) = y # splice ys (indexOf ys c) (Suc 0)"
      using False bounds by (simp add: splice_def Let_def min_def nat_add_distrib)
    with False Cons.IH [OF in_ys] show ?thesis by simp
  qed
qed

lemma splice_indexOf_absent: "c \<notin> set xs \<Longrightarrow> splice xs (indexOf xs c) (Suc 0) = butlast xs"
  by (cases "xs = []") (simp_all add: indexOf_absent splice_def Let_def butlast_conv_take
      nat_diff_distrib max_def)

lemma useSyncValue_cleanup_updaters:
  "updaters (useSyncValue_cleanup opts c st) =
     (if c \<in> set (updaters st) then remove1 c (updaters st) else butlast (updaters st))"
proof -
  have "updaters (useSyncValue_cleanup opts c st) = splice (updaters st) (indexOf (updaters st) c) 1"
    by (simp add: useSyncValue_cleanup_def Let_def)
  then show ?thesis
    by (simp add: splice_indexOf_present splice_indexOf_absent)
qed

lemma useSyncValue_effect_updaters:
  "updaters (useSyncValue_effect opts c st) = updaters st @ [c]"
  by (simp add: useSyncValue_effect_def Let_def)

lemma useSyncValue_updaters:
  "updaters (snd (useSyncValue call c mapper st)) = updaters st"
  "listening (snd (useSyncValue call c mapper st)) = listening st"
  by (simp_all add: useSyncValue_def Let_def)

lemma storageEventListener_fields:
  "updaters (storageEventListener call opts ev st) = updaters st"
  "listening (storageEventListener call opts ev st) = listening st"
  by (simp_all add: storageEventListener_def Let_def callUpdaters_fields)

lemma dispatchEvent_fields:
  "updaters (dispatchEvent call opts ev st) = updaters st"
  "listening (dispatchEvent call opts ev st) = listening st"
  by (simp_all add: dispatchEvent_def storageEventListener_fields)

lemma run_Nil: "run call opts [] st = st"
  by (simp add: run_def)

lemma run_Cons: "run call opts (op # ops) st = run call opts ops (step call opts op st)"
  by (simp add: run_def)

lemma step_alternating:
  assumes "alternating (op # ops) (updaters st)" and "distinct (updaters st)"
  shows "alternating ops (updaters (step call opts op st))"
    and "distinct (updaters (step call opts op st))"
    and "attached ops (updaters (step call opts op st)) = attached (op # ops) (updaters st)"
proof -
  show "alternating ops (updaters (step call opts op st))"
    using assms
    by (cases op) (simp_all add: useSyncValue_updaters useSyncValue_effect_updaters
        useSyncValue_cleanup_updaters setSyncValue_fields dispatchEvent_fields
        distinct_remove1_removeAll)
  show "distinct (updaters (step call opts op st))"
    using assms
    by (cases op) (simp_all add: useSyncValue_updaters useSyncValue_effect_updaters
        useSyncValue_cleanup_updaters setSyncValue_fields dispatchEvent_fields)
  show "attached ops (updaters (step call opts op st)) = attached (op # ops) (updaters st)"
    using assms
    by (cases op) (simp_all add: useSyncValue_updaters useSyncValue_effect_updaters
        useSyncValue_cleanup_updaters setSyncValue_fields dispatchEvent_fields
        distinct_remove1_removeAll)
qed

lemma run_alternating:
  "alternating ops (updaters st) \<Longrightarrow> distinct (updaters st) \<Longrightarrow>
   updaters (run call opts ops st) = attached ops (updaters st) \<and>
   distinct (updaters (run call opts ops st))"
proof (induction ops arbitrary: st)
  case Nil
  then show ?case by (simp add: run_Nil)
next
  case (Cons op ops)
  note after = step_alternating [OF Cons.prems, of call opts]
  from Cons.IH [OF after(1) after(2)] show ?case
    unfolding run_Cons after(3) .
qed

text \<open>
  C7, as amended. In every run in which the effect and the teardown of each consumer
  alternate, from an instance whose registry holds no consumer twice, the registry is
  the list of the attached consumers in the order of their attachment and holds none
  twice; the teardown of a registered listener then removes exactly that listener and
  leaves the others in their order, so that the listener is no longer registered
  after its consumer has detached. The teardown is a total function: it raises no
  error.
\<close>

theorem teardown_balances_attachment:
  assumes "alternating ops (updaters st)" and "distinct (updaters st)"
  shows "updaters (run call opts ops st) = attached ops (updaters st) \<and>
         distinct (updaters (run call opts ops st)) \<and>
         (\<forall>c \<in> set (updaters (run call opts ops st)).
            updaters (useSyncValue_cleanup opts c (run call opts ops st)) =
              removeAll c (updaters (run call opts ops st)) \<and>
            c \<notin> set (updaters (useSyncValue_cleanup opts c (run call opts ops st))))"
proof -
  note r = run_alternating [OF assms, of call opts]
  then have d: "distinct (updaters (run call opts ops st))" by (rule conjunct2)
  have "updaters (useSyncValue_cleanup opts c (run call opts ops st)) =
          removeAll c (updaters (run call opts ops st)) \<and>
        c \<notin> set (updaters (useSyncValue_cleanup opts c (run call opts ops st)))"
    if "c \<in> set (updaters (run call opts ops st))" for c
    using that d by (simp add: useSyncValue_cleanup_updaters distinct_remove1_removeAll)
  with r show ?thesis by blast
qed

text \<open>
  C7, as stated, fails on a second run of a teardown. With consumers 0 and 1
  attached, the teardown of consumer 0 leaves the listener of consumer 1 registered;
  run again, when the listener of consumer 0 is not present, it removes the
  listener of consumer 1: \<^verbatim>\<open>indexOf\<close> answers \<open>-1\<close> and
  \<^verbatim>\<open>splice(-1, 1)\<close> removes the last element.
\<close>

theorem second_teardown_removes_other_listener:
  "updaters (run call_arith counter_options [Attach 1, Detach 0] counter_attached) = [1] \<and>
   updaters (run call_arith counter_options [Attach 1, Detach 0, Detach 0] counter_attached) = []"
  by (simp add: run_def useSyncValue_effect_def useSyncValue_cleanup_def counter_attached_def
      counter_options_def storage_and_key_def splice_def Let_def)

theorem teardown_balances_attachment_witness:
  "updaters (run call_arith counter_options [Attach 1, Attach 2, Detach 1, Attach 1, Detach 0]
      counter_attached) = [2, 1] \<and>
   updaters (useSyncValue_cleanup counter_options 2
      (run call_arith counter_options [Attach 1, Attach 2, Detach 1, Attach 1, Detach 0]
         counter_attached)) = [1]"
proof -
  have u: "updaters counter_attached = [0]"
    by (simp add: counter_attached_def)
  have a: "alternating [Attach 1, Attach 2, Detach 1, Attach 1, Detach 0 :: (int, arith) operation]
      (updaters counter_attached)"
    by (simp add: u)
  have d: "distinct (updaters counter_attached)"
    by (simp add: u)
  from teardown_balances_attachment [OF a d, of call_arith counter_options]
  show ?thesis
    by (simp add: u)
qed

subsection \<open>The subscription to external notifications\<close>

lemma step_listening:
  assumes "listening st = (updaters st \<noteq> [] \<and> storage_and_key opts)"
  shows "listening (step call opts op st) =
           (updaters (step call opts op st) \<noteq> [] \<and> storage_and_key opts)"
proof (cases op)
  case (Attach c)
  with assms show ?thesis
    by (auto simp add: useSyncValue_effect_def Let_def)
next
  case (Detach c)
  have "splice xs i n \<noteq> [] \<Longrightarrow> xs \<noteq> []" for xs :: "nat list" and i n
    by (auto simp add: splice_def Let_def)
  with Detach assms show ?thesis
    by (auto simp add: useSyncValue_cleanup_def Let_def)
next
  case (Render c m)
  with assms show ?thesis by (simp add: useSyncValue_updaters)
next
  case (Update nv)
  with assms show ?thesis by (simp add: setSyncValue_fields)
next
  case (External ev)
  with assms show ?thesis by (simp add: dispatchEvent_fields)
qed

lemma run_listening:
  "listening st = (updaters st \<noteq> [] \<and> storage_and_key opts) \<Longrightarrow>
   listening (run call opts ops st) = (updaters (run call opts ops st) \<noteq> [] \<and> storage_and_key opts)"
proof (induction ops arbitrary: st)
  case Nil
  then show ?case by (simp add: run_Nil)
next
  case (Cons op ops)
  from Cons.IH [OF step_listening [OF Cons.prems, of call op]] show ?case
    by (simp only: run_Cons)
qed

lemma createSyncState_fresh:
  "createSyncState opts w = Inr st \<Longrightarrow> updaters st = [] \<and> \<not> listening st"
  by (auto simp add: createSyncState_def Let_def split: if_splits prod.splits)

text \<open>
  C8. After every run of operations on a constructed instance, the listener for
  external notifications is registered on the window exactly when the registry is
  not empty and a store and a key are configured. So, with a store and a key, it
  becomes registered by the attachment that makes the registry a singleton and
  unregistered by the detachment that empties it, any number of times; and without
  a store and a key it is never registered.
\<close>

theorem listening_iff_registry_nonempty:
  assumes "createSyncState opts w = Inr st0"
  shows "listening (run call opts ops st0) =
           (updaters (run call opts ops st0) \<noteq> [] \<and> storage_and_key opts)"
  using createSyncState_fresh [OF assms] by (intro run_listening) simp

lemma created_stored_counter:
  "createSyncState stored_counter_options empty_world = Inr created_stored_counter"
  by (simp add: createSyncState_def stored_counter_options_def empty_world_def truthy_def
      getInitialValue_def default_deserialize_def number_parse_def digit_of_def persistToStorage_def
      default_serialize_def number_serialize_def digit_char_def created_stored_counter_def)

lemma created_counter:
  "createSyncState counter_options empty_world = Inr created_counter"
  by (simp add: createSyncState_def counter_options_def empty_world_def truthy_def
      getInitialValue_def persistToStorage_def created_counter_def)

theorem listening_iff_registry_nonempty_witness:
  "\<not> listening (run call_arith stored_counter_options [] created_stored_counter) \<and>
   listening (run call_arith stored_counter_options [Attach 0] created_stored_counter) \<and>
   listening (run call_arith stored_counter_options [Attach 0, Attach 1, Detach 0]
                created_stored_counter) \<and>
   \<not> listening (run call_arith stored_counter_options [Attach 0, Attach 1, Detach 0, Detach 1]
                created_stored_counter) \<and>
   listening (run call_arith stored_counter_options
                [Attach 0, Attach 1, Detach 0, Detach 1, Attach 2] created_stored_counter) \<and>
   \<not> listening (run call_arith counter_options [Attach 0] created_counter)"
proof -
  have s: "storage_and_key stored_counter_options" and n: "\<not> storage_and_key counter_options"
    by (simp_all add: storage_and_key_def stored_counter_options_def counter_options_def truthy_def)
  note stored = listening_iff_registry_nonempty [OF created_stored_counter, of call_arith]
  note plain = listening_iff_registry_nonempty [OF created_counter, of call_arith]
  have u: "updaters created_stored_counter = []"
    by (simp add: created_stored_counter_def)
  show ?thesis
    unfolding stored plain
    by (simp add: s n run_def useSyncValue_effect_updaters useSyncValue_cleanup_updaters u)
qed

subsection \<open>The sample codec\<close>

text \<open>The decimal codec gives every integer back from its own encoding.\<close>

lemma digit_of_digit_char: "d < 10 \<Longrightarrow> digit_of (digit_char d) = Some d"
proof -
  assume "d < 10"
  then have "d \<in> {0, 1, 2, 3, 4, 5, 6, 7, 8, 9}" by auto
  then show ?thesis
    by (auto simp add: digit_of_def digit_char_def)
qed

lemma digit_char_not_minus: "d < 10 \<Longrightarrow> digit_char d \<noteq> CHR ''-''"
proof -
  assume "d < 10"
  then have "d \<in> {0, 1, 2, 3, 4, 5, 6, 7, 8, 9}" by auto
  then show ?thesis
    by (auto simp add: digit_char_def)
qed

lemma digits_value_append:
  "digits_value acc (xs @ ys) =
     (case digits_value acc xs of None \<Rightarrow> None | Some a \<Rightarrow> digits_value a ys)"
  by (induction xs arbitrary: acc) (simp_all split: option.splits)

lemma digits_value_decimal: "digits_value 0 (decimal n) = Some n"
proof (induction n rule: decimal.induct)
  case (1 n)
  show ?case
  proof (cases "n < 10")
    case True
    then show ?thesis
      by (subst decimal.simps) (simp add: digit_of_digit_char del: decimal.simps)
  next
    case False
    with "1.IH" show ?thesis
      by (subst decimal.simps) (simp add: digits_value_append digit_of_digit_char del: decimal.simps)
  qed
qed

lemma decimal_first: "\<exists>c cs. decimal n = c # cs \<and> c \<noteq> CHR ''-''"
proof (induction n rule: decimal.induct)
  case (1 n)
  show ?case
  proof (cases "n < 10")
    case True
    then show ?thesis
      by (subst decimal.simps) (simp add: digit_char_not_minus del: decimal.simps)
  next
    case False
    with "1.IH" obtain c cs where "decimal (n div 10) = c # cs" and "c \<noteq> CHR ''-''"
      by blast
    with False show ?thesis
      by (subst decimal.simps) (simp del: decimal.simps)
  qed
qed

lemma number_codec_roundtrip: "number_parse (number_serialize (JVal i)) = JVal i"
proof -
  obtain c cs where pos: "decimal (nat i) = c # cs" "c \<noteq> CHR ''-''"
    using decimal_first by blast
  obtain d ds where neg: "decimal (nat (- i)) = d # ds"
    using decimal_first by blast
  show ?thesis
  proof (cases "i < 0")
    case True
    have "digits_value 0 (d # ds) = Some (nat (- i))"
      using digits_value_decimal [of "nat (- i)"] by (simp only: neg)
    with True show ?thesis
      by (simp add: number_serialize_def number_parse_def neg del: decimal.simps)
  next
    case False
    have "digits_value 0 (c # cs) = Some (nat i)"
      using digits_value_decimal [of "nat i"] by (simp only: pos)
    with False pos(2) show ?thesis
      by (simp add: number_serialize_def number_parse_def pos(1) del: decimal.simps)
  qed
qed

lemma number_serialize_nonempty: "number_serialize (JVal i) \<noteq> []"
  using decimal_first [of "nat i"] decimal_first [of "nat (- i)"]
  by (auto simp add: number_serialize_def simp del: decimal.simps)

subsection \<open>The round trip through the store\<close>

lemma setSyncValue_items:
  assumes "storage opts = Some a" and "key opts = Some k" and "k \<noteq> []"
  shows "items (setSyncValue call opts nv st) a k =
           Some (serialize opts (valueCell (setSyncValue call opts nv st)))"
  unfolding setSyncValue_valueCell
  using assms by (simp add: setSyncValue_unfold persistToStorage_items)

lemma default_codec_roundtrip:
  "parse (stringify v) = v \<Longrightarrow> stringify v \<noteq> [] \<Longrightarrow>
   default_deserialize parse (Some (default_serialize stringify v)) = v"
  by (simp add: default_deserialize_def default_serialize_def)

text \<open>
  C9, as amended. Let two instances, in two windows, share a storage and a key, and
  let the decoder of the receiver give back a value \<open>v\<close> other than
  \<^verbatim>\<open>null\<close> from what the encoder of the sender makes of it (the round-trip law
  at \<open>v\<close>). When an update of the sender makes \<open>v\<close> its value, the update
  persists \<open>v\<close>, and the notification of this write, dispatched in the window of a
  receiver that is listening, makes \<open>v\<close> the value of the receiver and what each of
  its listeners observes, through its own projection. The default codec obeys the
  round-trip law at every value at which the two built-in JSON functions do (the text
  that \<^verbatim>\<open>stringify\<close> returns is never empty).
\<close>

theorem roundtrip_through_store:
  assumes "storage sender = Some a" and "key sender = Some k" and "k \<noteq> []"
    and "storage receiver = Some a" and "key receiver = Some k"
    and "valueCell (setSyncValue call sender nv st) = v"
    and "deserialize receiver (Some (serialize sender v)) = v"
    and "v \<noteq> JNull"
    and "listening st2"
  shows "valueCell (dispatchEvent call receiver
            (storage_event_of a k (setSyncValue call sender nv st)) st2) = v \<and>
         (\<forall>c \<in> set (updaters st2).
            hookState (dispatchEvent call receiver
              (storage_event_of a k (setSyncValue call sender nv st)) st2) c =
              Some (projected call (mapperRef st2 c) v)) \<and>
         (parse (stringify v) = v \<and> stringify v \<noteq> [] \<longrightarrow>
            default_deserialize parse (Some (default_serialize stringify v)) = v)"
proof -
  let ?ev = "storage_event_of a k (setSyncValue call sender nv st)"
  have raw: "newValue ?ev = Some (serialize sender v)"
    using setSyncValue_items [OF assms(1-3), of call nv st] assms(6)
    by (simp add: storage_event_of_def)
  have area: "storageArea ?ev = Some a" and evkey: "eventKey ?ev = Some k"
    by (simp_all add: storage_event_of_def)
  have decoded: "deserialize receiver (newValue ?ev) = v"
    by (simp add: raw assms(7))
  then have nonnull: "deserialize receiver (newValue ?ev) \<noteq> JNull"
    by (simp add: assms(8))
  have handled: "dispatchEvent call receiver ?ev st2 =
      callUpdaters call v (st2\<lparr>valueCell := v\<rparr>)"
    using storageEventListener_match [OF area assms(4) evkey assms(5) nonnull, of call st2]
      assms(9)
    by (simp add: dispatchEvent_def decoded)
  show ?thesis
    unfolding handled
    by (simp add: callUpdaters_fields callUpdaters_hookState default_codec_roundtrip)
qed

text \<open>With the sample options, every integer to which the sender is updated becomes
  the value of the receiver.\<close>

theorem roundtrip_through_store_witness:
  "(\<forall>i. valueCell (dispatchEvent call_arith stored_counter_options
      (storage_event_of LocalStorage ''k''
         (setSyncValue call_arith stored_counter_options (JVal i) counter_at_one))
      counter_at_one) = JVal i) \<and>
   hookState (dispatchEvent call_arith stored_counter_options
      (storage_event_of LocalStorage ''k''
         (setSyncValue call_arith stored_counter_options (JFun (Plus 4)) counter_at_one))
      counter_at_one) 1 = Some (JVal 10)"
proof -
  have s: "storage stored_counter_options = Some LocalStorage"
    and k: "key stored_counter_options = Some ''k''" and ne: "''k'' \<noteq> []"
    by (simp_all add: stored_counter_options_def)
  have l: "listening counter_at_one"
    by (simp add: counter_at_one_def)
  have rt: "deserialize stored_counter_options (Some (serialize stored_counter_options (JVal i)))
              = JVal i" for i
    by (simp add: stored_counter_options_def default_codec_roundtrip number_codec_roundtrip
        number_serialize_nonempty)
  have nn: "(JVal i :: (int, arith) jsval) \<noteq> JNull" for i
    by simp
  have literal: "valueCell (setSyncValue call_arith stored_counter_options (JVal i) counter_at_one)
             = JVal i" for i
    by (simp add: setSyncValue_valueCell)
  have computed: "valueCell (setSyncValue call_arith stored_counter_options (JFun (Plus 4)) counter_at_one)
             = JVal 5"
    by (simp add: setSyncValue_valueCell counter_at_one_def)
  have "valueCell (dispatchEvent call_arith stored_counter_options
      (storage_event_of LocalStorage ''k''
         (setSyncValue call_arith stored_counter_options (JVal i) counter_at_one))
      counter_at_one) = JVal i" for i
    using roundtrip_through_store [OF s k ne s k literal rt nn l] by blast
  moreover have "hookState (dispatchEvent call_arith stored_counter_options
      (storage_event_of LocalStorage ''k''
         (setSyncValue call_arith stored_counter_options (JFun (Plus 4)) counter_at_one))
      counter_at_one) 1 = Some (JVal 10)"
    using roundtrip_through_store [OF s k ne s k computed rt nn l]
    by (simp add: counter_at_one_def projected_def)
  ultimately show ?thesis by blast
qed

text \<open>
  C9, as stated, fails at the value \<^verbatim>\<open>null\<close>. The default codec gives
  \<^verbatim>\<open>null\<close> back from its own encoding of \<^verbatim>\<open>null\<close>, so the round-trip law
  holds there; yet when the sender is updated to \<^verbatim>\<open>null\<close>, the receiver, which
  is listening and holds 1, still holds 1 after the notification: the handler takes
  a decoded \<^verbatim>\<open>null\<close> for a failure and ignores the event.
\<close>

theorem null_update_is_not_propagated:
  "deserialize stored_counter_options (Some (serialize stored_counter_options JNull)) = JNull \<and>
   valueCell (setSyncValue call_arith stored_counter_options JNull counter_at_one) = JNull \<and>
   listening counter_at_one \<and>
   valueCell (dispatchEvent call_arith stored_counter_options
      (storage_event_of LocalStorage ''k''
         (setSyncValue call_arith stored_counter_options JNull counter_at_one))
      counter_at_one) = JVal 1"
proof -
  have rt: "deserialize stored_counter_options (Some (serialize stored_counter_options JNull)) = JNull"
    by (simp add: stored_counter_options_def default_deserialize_def default_serialize_def
        number_serialize_def number_parse_def digit_of_def)
  have v: "valueCell (setSyncValue call_arith stored_counter_options JNull counter_at_one) = JNull"
    by (simp add: setSyncValue_valueCell)
  have raw: "newValue (storage_event_of LocalStorage ''k''
      (setSyncValue call_arith stored_counter_options JNull counter_at_one)) =
      Some (serialize stored_counter_options JNull)"
  proof -
    have "storage stored_counter_options = Some LocalStorage"
      and "key stored_counter_options = Some ''k''" and "''k'' \<noteq> []"
      by (simp_all add: stored_counter_options_def)
    from setSyncValue_items [OF this, of call_arith JNull counter_at_one] show ?thesis
      unfolding v by (simp add: storage_event_of_def)
  qed
  have "dispatchEvent call_arith stored_counter_options
      (storage_event_of LocalStorage ''k''
         (setSyncValue call_arith stored_counter_options JNull counter_at_one))
      counter_at_one = counter_at_one"
    by (simp add: dispatchEvent_def storageEventListener_def Let_def raw rt)
  with rt v show ?thesis
    by (simp add: counter_at_one_def)
qed
end
